theory Spec2Isabelle
  imports Complex_Main
begin

section \<open>Python values\<close>

text \<open>
  The services pass untyped dictionaries around (\<^verbatim>\<open>Dict[str, Any]\<close>), and the analysis
  record is filled with whatever the model's JSON holds. Values are therefore modelled
  dynamically. Strings are UTF-8 byte sequences; dictionary keys are strings, kept in
  insertion order. A float is modelled by the exact decimal value of the literal that
  denotes it: \<open>PFloat 0.9\<close> is the float that Python writes \<^verbatim>\<open>0.9\<close>. The rounding of float
  arithmetic is not modelled; the only sum of floats in the code is the expiry time of a
  token, which is computed here without rounding.
\<close>

datatype pyval =
    PNone
  | PBool bool
  | PInt int
  | PFloat rat
  | PStr string
  | PList "pyval list"
  | PDict "(string \<times> pyval) list"

type_synonym pydict = "(string \<times> pyval) list"

datatype exn = TypeError | KeyError | AttributeError | RequestError

text \<open>Truth value of an object, as \<^verbatim>\<open>if x:\<close> and \<^verbatim>\<open>not x\<close> read it.\<close>

fun truthy :: "pyval \<Rightarrow> bool" where
  "truthy PNone = False"
| "truthy (PBool b) = b"
| "truthy (PInt i) = (i \<noteq> 0)"
| "truthy (PFloat r) = (r \<noteq> 0)"
| "truthy (PStr s) = (s \<noteq> [])"
| "truthy (PList xs) = (xs \<noteq> [])"
| "truthy (PDict d) = (d \<noteq> [])"

text \<open>\<^verbatim>\<open>d.get(k, default)\<close>, \<^verbatim>\<open>d[k]\<close> and \<^verbatim>\<open>d[k] = v\<close> on a dictionary.\<close>

definition dict_get :: "pydict \<Rightarrow> string \<Rightarrow> pyval \<Rightarrow> pyval" where
  "dict_get d k dflt = (case map_of d k of None \<Rightarrow> dflt | Some v \<Rightarrow> v)"

definition dict_item :: "pydict \<Rightarrow> string \<Rightarrow> exn + pyval" where
  "dict_item d k = (case map_of d k of None \<Rightarrow> Inl KeyError | Some v \<Rightarrow> Inr v)"

fun dict_set :: "string \<Rightarrow> pyval \<Rightarrow> pydict \<Rightarrow> pydict" where
  "dict_set k v [] = [(k, v)]"
| "dict_set k v (p # ps) = (if fst p = k then (k, v) # ps else p # dict_set k v ps)"

definition startswith :: "string \<Rightarrow> string \<Rightarrow> bool" where
  "startswith s p = (take (length p) s = p)"

section \<open>A model of the library function json.loads\<close>

text \<open>
  \<^verbatim>\<open>json.loads\<close> belongs to the Python standard library. The analyzer below takes the
  decoder as a parameter \<open>loads\<close> (\<open>None\<close> when the decoder raises), so its theorems hold
  for every decoder, the library's included. The function \<open>json_loads\<close> of this section
  serves only to evaluate the analyzer on concrete responses. It follows the library's
  scanner on the JSON texts made of objects, arrays, strings with the one-character
  escapes, decimal numbers, \<^verbatim>\<open>true\<close>, \<^verbatim>\<open>false\<close> and \<^verbatim>\<open>null\<close> (a later duplicate key replaces
  the earlier value), and on the texts that the library rejects for their syntax. It is
  not the library function outside that domain: it rejects the \<^verbatim>\<open>\u\<close> escape and the
  literals \<^verbatim>\<open>NaN\<close>, \<^verbatim>\<open>Infinity\<close> and \<^verbatim>\<open>-Infinity\<close>, which the library accepts, and it keeps
  the decimal value of a number, which the library rounds to a float. No general
  statement below is about \<open>json_loads\<close>.
\<close>

abbreviation (input) DQ :: char where "DQ \<equiv> CHR 0x22"
abbreviation (input) BSL :: char where "BSL \<equiv> CHR 0x5C"

definition json_ws :: "char \<Rightarrow> bool" where
  "json_ws c = (c = CHR '' '' \<or> c = CHR 0x09 \<or> c = CHR 0x0A \<or> c = CHR 0x0D)"

definition skip_ws :: "string \<Rightarrow> string" where
  "skip_ws s = dropWhile json_ws s"

definition is_digit :: "char \<Rightarrow> bool" where
  "is_digit c = (48 \<le> (of_char c :: nat) \<and> (of_char c :: nat) \<le> 57)"

definition digits_val :: "string \<Rightarrow> nat" where
  "digits_val ds = foldl (\<lambda>n c. 10 * n + ((of_char c :: nat) - 48)) 0 ds"

definition unescape :: "char \<Rightarrow> char option" where
  "unescape e =
     (if e = DQ \<or> e = BSL \<or> e = CHR ''/'' then Some e
      else if e = CHR ''b'' then Some (CHR 0x08)
      else if e = CHR ''f'' then Some (CHR 0x0C)
      else if e = CHR ''n'' then Some (CHR 0x0A)
      else if e = CHR ''r'' then Some (CHR 0x0D)
      else if e = CHR ''t'' then Some (CHR 0x09)
      else None)"

text \<open>The body of a string after its opening quote; control characters are refused.\<close>

fun scanstring :: "string \<Rightarrow> string \<Rightarrow> (string \<times> string) option" where
  "scanstring acc [] = None"
| "scanstring acc [c] = (if c = DQ then Some (rev acc, []) else None)"
| "scanstring acc (c # e # es) =
     (if c = DQ then Some (rev acc, e # es)
      else if c = BSL then
        (case unescape e of None \<Rightarrow> None | Some u \<Rightarrow> scanstring (u # acc) es)
      else if (of_char c :: nat) < 32 then None
      else scanstring (c # acc) (e # es))"

text \<open>
  Numbers follow the library's pattern: an optional minus, \<^verbatim>\<open>0\<close> or a digit string
  without leading zero, an optional fraction, an optional exponent. Without fraction and
  exponent the value is an \<^verbatim>\<open>int\<close>, otherwise a \<^verbatim>\<open>float\<close>.
\<close>

definition scan_exponent :: "string \<Rightarrow> (int \<times> string) option" where
  "scan_exponent s =
     (case s of
        [] \<Rightarrow> None
      | e # r \<Rightarrow>
          if e = CHR ''e'' \<or> e = CHR ''E'' then
            (let (neg, r1) =
                   (case r of
                      [] \<Rightarrow> (False, r)
                    | g # gs \<Rightarrow> if g = CHR ''-'' then (True, gs)
                               else if g = CHR ''+'' then (False, gs) else (False, r))
             in if takeWhile is_digit r1 = [] then None
                else Some ((if neg then - 1 else 1) * int (digits_val (takeWhile is_digit r1)),
                           dropWhile is_digit r1))
          else None)"

definition scan_fraction :: "string \<Rightarrow> (string \<times> string) option" where
  "scan_fraction s =
     (case s of
        [] \<Rightarrow> None
      | d # r \<Rightarrow>
          if d = CHR ''.'' \<and> takeWhile is_digit r \<noteq> []
          then Some (takeWhile is_digit r, dropWhile is_digit r) else None)"

definition pow10 :: "int \<Rightarrow> rat" where
  "pow10 e = (if 0 \<le> e then 10 ^ nat e else 1 / 10 ^ nat (- e))"

definition scan_number :: "string \<Rightarrow> (pyval \<times> string) option" where
  "scan_number s =
     (let (neg, s1) = (case s of [] \<Rightarrow> (False, s)
                       | c # cs \<Rightarrow> if c = CHR ''-'' then (True, cs) else (False, s));
          ip = (case s1 of [] \<Rightarrow> []
                | c # cs \<Rightarrow> if c = CHR ''0'' then [c] else takeWhile is_digit s1);
          r1 = drop (length ip) s1;
          sgn = (if neg then - 1 else 1 :: int)
      in if ip = [] then None
         else
           (let (fp, r2) = (case scan_fraction r1 of None \<Rightarrow> ([], r1) | Some x \<Rightarrow> x);
                (ex, r3) = (case scan_exponent r2 of None \<Rightarrow> (None, r2)
                            | Some (e, r) \<Rightarrow> (Some e, r))
            in if fp = [] \<and> ex = None then Some (PInt (sgn * int (digits_val ip)), r3)
               else Some (PFloat (of_int sgn * of_nat (digits_val (ip @ fp))
                                    * pow10 ((case ex of None \<Rightarrow> 0 | Some e \<Rightarrow> e) - int (length fp))),
                          r3)))"

text \<open>
  The recursive scanner. The first argument bounds the number of nested and successive
  scanner calls; the length of the text is enough, since each call consumes a character.
  \<open>json_object\<close> starts just after the opening quote of a key, \<open>json_array\<close> at the
  start of an element.
\<close>

fun scan_once :: "nat \<Rightarrow> string \<Rightarrow> (pyval \<times> string) option"
  and json_object :: "nat \<Rightarrow> pydict \<Rightarrow> string \<Rightarrow> (pyval \<times> string) option"
  and json_array :: "nat \<Rightarrow> pyval list \<Rightarrow> string \<Rightarrow> (pyval \<times> string) option"
where
  "scan_once 0 s = None"
| "scan_once (Suc n) [] = None"
| "scan_once (Suc n) (c # cs) =
     (if c = DQ then
        (case scanstring [] cs of None \<Rightarrow> None | Some (str, r) \<Rightarrow> Some (PStr str, r))
      else if c = CHR ''{'' then
        (case skip_ws cs of
           [] \<Rightarrow> None
         | d # ds \<Rightarrow> if d = CHR ''}'' then Some (PDict [], ds)
                    else if d = DQ then json_object n [] ds else None)
      else if c = CHR ''['' then
        (case skip_ws cs of
           [] \<Rightarrow> None
         | d # ds \<Rightarrow> if d = CHR '']'' then Some (PList [], ds)
                    else json_array n [] (d # ds))
      else if startswith (c # cs) ''null'' then Some (PNone, drop 4 (c # cs))
      else if startswith (c # cs) ''true'' then Some (PBool True, drop 4 (c # cs))
      else if startswith (c # cs) ''false'' then Some (PBool False, drop 5 (c # cs))
      else scan_number (c # cs))"
| "json_object 0 pairs s = None"
| "json_object (Suc n) pairs s =
     (case scanstring [] s of
        None \<Rightarrow> None
      | Some (key, r) \<Rightarrow>
          (case skip_ws r of
             [] \<Rightarrow> None
           | c # cs \<Rightarrow>
               if c \<noteq> CHR '':'' then None
               else
                 (case scan_once n (skip_ws cs) of
                    None \<Rightarrow> None
                  | Some (v, r2) \<Rightarrow>
                      (case skip_ws r2 of
                         [] \<Rightarrow> None
                       | d # ds \<Rightarrow>
                           if d = CHR ''}'' then Some (PDict (dict_set key v pairs), ds)
                           else if d = CHR '','' then
                             (case skip_ws ds of
                                [] \<Rightarrow> None
                              | e # es \<Rightarrow> if e = DQ then json_object n (dict_set key v pairs) es
                                         else None)
                           else None))))"
| "json_array 0 vals s = None"
| "json_array (Suc n) vals s =
     (case scan_once n s of
        None \<Rightarrow> None
      | Some (v, r) \<Rightarrow>
          (case skip_ws r of
             [] \<Rightarrow> None
           | d # ds \<Rightarrow>
               if d = CHR '']'' then Some (PList (vals @ [v]), ds)
               else if d = CHR '','' then json_array n (vals @ [v]) (skip_ws ds)
               else None))"

definition json_loads :: "string \<Rightarrow> pyval option" where
  "json_loads s =
     (case scan_once (Suc (length s)) (skip_ws s) of
        None \<Rightarrow> None
      | Some (v, r) \<Rightarrow> if skip_ws r = [] then Some v else None)"

section \<open>services/ai\_analyzer.py\<close>

subsection \<open>Extraction of the JSON text from a response\<close>

text \<open>
  The class \<^verbatim>\<open>\s\<close> of a Unicode pattern: the length in bytes of the white-space code
  point at the head of the text, or 0 when there is none.
\<close>

definition ws_len :: "string \<Rightarrow> nat" where
  "ws_len s =
     (case s of
        [] \<Rightarrow> 0
      | c # cs \<Rightarrow>
          if (9 \<le> (of_char c :: nat) \<and> (of_char c :: nat) \<le> 13)
             \<or> (28 \<le> (of_char c :: nat) \<and> (of_char c :: nat) \<le> 32) then 1
          else if c = CHR 0xC2 \<and> (take 1 cs = [CHR 0x85] \<or> take 1 cs = [CHR 0xA0]) then 2
          else if c = CHR 0xE1 \<and> take 2 cs = [CHR 0x9A, CHR 0x80] then 3
          else if c = CHR 0xE2 \<and> take 1 cs = [CHR 0x80] \<and>
                  (case drop 1 cs of [] \<Rightarrow> False
                   | d # _ \<Rightarrow> (128 \<le> (of_char d :: nat) \<and> (of_char d :: nat) \<le> 138)
                               \<or> d = CHR 0xA8 \<or> d = CHR 0xA9 \<or> d = CHR 0xAF) then 3
          else if c = CHR 0xE2 \<and> take 2 cs = [CHR 0x81, CHR 0x9F] then 3
          else if c = CHR 0xE3 \<and> take 2 cs = [CHR 0x80, CHR 0x80] then 3
          else 0)"

function lstrip_ws :: "string \<Rightarrow> string" where
  "lstrip_ws s = (if ws_len s = 0 then s else lstrip_ws (drop (ws_len s) s))"
  by pat_completeness auto
termination
proof (relation "measure length")
  show "wf (measure length)" by simp
next
  fix s :: string
  assume nz: "ws_len s \<noteq> 0"
  have "ws_len [] = 0" by (simp add: ws_len_def)
  with nz have "s \<noteq> []" by auto
  with nz show "(drop (ws_len s) s, s) \<in> measure length" by simp
qed

text \<open>
  The pattern \<^verbatim>\<open>```json\s*(.*?)\s*```\<close> with \<^verbatim>\<open>re.DOTALL\<close>. \<open>lazy_group\<close> extends the
  group one character at a time until the rest reads \<^verbatim>\<open>\s*```\<close>; the first \<^verbatim>\<open>\s*\<close> takes
  the whole run of white space, since a fence never starts inside it. \<open>search_fenced\<close>
  tries the start positions from the left, as \<^verbatim>\<open>re.search\<close> does, and returns group 1.
\<close>

fun lazy_group :: "string \<Rightarrow> string \<Rightarrow> string option" where
  "lazy_group acc [] = (if startswith (lstrip_ws []) ''```'' then Some (rev acc) else None)"
| "lazy_group acc (c # cs) =
     (if startswith (lstrip_ws (c # cs)) ''```'' then Some (rev acc)
      else lazy_group (c # acc) cs)"

definition match_fenced :: "string \<Rightarrow> string option" where
  "match_fenced s =
     (if startswith s ''```json'' then lazy_group [] (lstrip_ws (drop 7 s)) else None)"

fun search_fenced :: "string \<Rightarrow> string option" where
  "search_fenced [] = None"
| "search_fenced (c # cs) =
     (case match_fenced (c # cs) of Some g \<Rightarrow> Some g | None \<Rightarrow> search_fenced cs)"

text \<open>
  The pattern \<^verbatim>\<open>({.*})\<close> with \<^verbatim>\<open>re.DOTALL\<close>: from the leftmost opening brace that has a
  closing brace after it, up to the last closing brace of the text.
\<close>

definition match_braces :: "string \<Rightarrow> string option" where
  "match_braces s =
     (case s of
        [] \<Rightarrow> None
      | c # cs \<Rightarrow>
          if c = CHR ''{'' then
            (let body = rev (dropWhile (\<lambda>x. x \<noteq> CHR ''}'') (rev cs))
             in if body = [] then None else Some (c # body))
          else None)"

fun search_braces :: "string \<Rightarrow> string option" where
  "search_braces [] = None"
| "search_braces (c # cs) =
     (case match_braces (c # cs) of Some g \<Rightarrow> Some g | None \<Rightarrow> search_braces cs)"

subsection \<open>\_parse\_analysis\_response\<close>

text \<open>The two-character literal for "unknown" (U+672A U+77E5).\<close>

definition str_unknown :: string where
  "str_unknown = [CHR 0xE6, CHR 0x9C, CHR 0xAA, CHR 0xE7, CHR 0x9F, CHR 0xA5]"

definition parse_failure_default :: pyval where
  "parse_failure_default =
     PDict [(''complexity_score'', PFloat 0.5),
            (''difficulty_level'', PStr ''intermediate''),
            (''required_skills'', PList []),
            (''estimated_time'', PStr str_unknown),
            (''solution_approach'', PStr []),
            (''technical_breakdown'', PDict []),
            (''learning_opportunities'', PList []),
            (''confidence_score'', PFloat 0.5)]"

definition extract_json_str :: "string \<Rightarrow> string" where
  "extract_json_str response_text =
     (case search_fenced response_text of
        Some g \<Rightarrow> g
      | None \<Rightarrow> (case search_braces response_text of Some g \<Rightarrow> g | None \<Rightarrow> response_text))"

text \<open>
  The response text is \<open>None\<close> when the completion carries no content; \<^verbatim>\<open>re.search\<close> then
  raises inside the \<^verbatim>\<open>try\<close>, and the bare \<^verbatim>\<open>except\<close> returns the default dictionary, as it
  does when the decoder raises. The decoder's value is returned whatever its type.
\<close>

definition parse_analysis_response :: "(string \<Rightarrow> pyval option) \<Rightarrow> string option \<Rightarrow> pyval" where
  "parse_analysis_response loads response_text =
     (case response_text of
        None \<Rightarrow> parse_failure_default
      | Some text \<Rightarrow>
          (case loads (extract_json_str text) of
             None \<Rightarrow> parse_failure_default
           | Some v \<Rightarrow> v))"

subsection \<open>analyze\_issue\<close>

record IssueAnalysis =
  issue_id :: pyval
  complexity_score :: pyval
  difficulty_level :: pyval
  required_skills :: pyval
  estimated_time :: pyval
  solution_approach :: pyval
  technical_breakdown :: pyval
  learning_opportunities :: pyval
  confidence_score :: pyval

text \<open>
  \_build\_issue\_analysis\_prompt formats the issue into the prompt. The rendered text
  is not modelled (the completion is an arbitrary outcome below); what is modelled is
  where the formatting raises: \<^verbatim>\<open>issue.get('body', ...)[:1000]\<close> needs a value that can be
  sliced, and \<^verbatim>\<open>', '.join(issue.get('labels', []))\<close> an iterable of strings.
\<close>

fun sliceable :: "pyval \<Rightarrow> bool" where
  "sliceable (PStr s) = True"
| "sliceable (PList xs) = True"
| "sliceable v = False"

fun is_str :: "pyval \<Rightarrow> bool" where
  "is_str (PStr s) = True"
| "is_str v = False"

fun joinable :: "pyval \<Rightarrow> bool" where
  "joinable (PStr s) = True"
| "joinable (PList xs) = list_all is_str xs"
| "joinable (PDict d) = True"
| "joinable v = False"

definition str_no_description :: string where
  "str_no_description =
     [CHR 0xE6, CHR 0x97, CHR 0xA0, CHR 0xE6, CHR 0x8F, CHR 0x8F, CHR 0xE8, CHR 0xBF, CHR 0xB0]"

definition build_issue_analysis_prompt :: "pydict \<Rightarrow> exn + unit" where
  "build_issue_analysis_prompt issue =
     (if \<not> sliceable (dict_get issue ''body'' (PStr str_no_description)) then Inl TypeError
      else if \<not> joinable (dict_get issue ''labels'' (PList [])) then Inl TypeError
      else Inr ())"

text \<open>
  The outcome of the chat completion as \<^verbatim>\<open>analyze_issue\<close> sees it: the call, or the read
  of \<^verbatim>\<open>response.choices[0].message.content\<close>, raises; or a content is read, which is a
  string or \<^verbatim>\<open>None\<close>.
\<close>

datatype completion = Raises | Content "string option"

text \<open>The literals of \_get\_default\_analysis, as UTF-8.\<close>

definition str_project_language :: string where
  "str_project_language =
     [CHR 0xE9, CHR 0xA1, CHR 0xB9, CHR 0xE7, CHR 0x9B, CHR 0xAE, CHR 0xE7, CHR 0x9B, CHR 0xB8,
      CHR 0xE5, CHR 0x85, CHR 0xB3, CHR 0xE8, CHR 0xAF, CHR 0xAD, CHR 0xE8, CHR 0xA8, CHR 0x80]"

definition str_one_to_three_days :: string where
  "str_one_to_three_days = [CHR 0x31, CHR 0x2D, CHR 0x33, CHR 0xE5, CHR 0xA4, CHR 0xA9]"

definition str_understand_architecture :: string where
  "str_understand_architecture =
     [CHR 0xE9, CHR 0x9C, CHR 0x80, CHR 0xE8, CHR 0xA6, CHR 0x81, CHR 0xE5, CHR 0x85, CHR 0x88,
      CHR 0xE7, CHR 0x90, CHR 0x86, CHR 0xE8, CHR 0xA7, CHR 0xA3, CHR 0xE9, CHR 0xA1, CHR 0xB9,
      CHR 0xE7, CHR 0x9B, CHR 0xAE, CHR 0xE6, CHR 0x9E, CHR 0xB6, CHR 0xE6, CHR 0x9E, CHR 0x84,
      CHR 0xE5, CHR 0x92, CHR 0x8C, CHR 0xE4, CHR 0xBB, CHR 0xA3, CHR 0xE7, CHR 0xA0, CHR 0x81,
      CHR 0xE7, CHR 0xBB, CHR 0x84, CHR 0xE7, CHR 0xBB, CHR 0x87]"

definition str_learn_code_structure :: string where
  "str_learn_code_structure =
     [CHR 0xE5, CHR 0xAD, CHR 0xA6, CHR 0xE4, CHR 0xB9, CHR 0xA0, CHR 0xE9, CHR 0xA1, CHR 0xB9,
      CHR 0xE7, CHR 0x9B, CHR 0xAE, CHR 0xE4, CHR 0xBB, CHR 0xA3, CHR 0xE7, CHR 0xA0, CHR 0x81,
      CHR 0xE7, CHR 0xBB, CHR 0x93, CHR 0xE6, CHR 0x9E, CHR 0x84]"

definition str_distributed_concepts :: string where
  "str_distributed_concepts =
     [CHR 0xE7, CHR 0x90, CHR 0x86, CHR 0xE8, CHR 0xA7, CHR 0xA3, CHR 0xE5, CHR 0x88, CHR 0x86,
      CHR 0xE5, CHR 0xB8, CHR 0x83, CHR 0xE5, CHR 0xBC, CHR 0x8F, CHR 0xE7, CHR 0xB3, CHR 0xBB,
      CHR 0xE7, CHR 0xBB, CHR 0x9F, CHR 0xE6, CHR 0xA6, CHR 0x82, CHR 0xE5, CHR 0xBF, CHR 0xB5]"

definition get_default_analysis :: "pydict \<Rightarrow> exn + IssueAnalysis" where
  "get_default_analysis issue =
     (case dict_item issue ''id'' of
        Inl e \<Rightarrow> Inl e
      | Inr i \<Rightarrow>
          Inr \<lparr>issue_id = i,
               complexity_score = PFloat 0.5,
               difficulty_level = PStr ''intermediate'',
               required_skills = PList [PStr ''Git'', PStr str_project_language],
               estimated_time = PStr str_one_to_three_days,
               solution_approach = PStr str_understand_architecture,
               technical_breakdown = PDict [],
               learning_opportunities =
                 PList [PStr str_learn_code_structure, PStr str_distributed_concepts],
               confidence_score = PFloat 0.5\<rparr>)"

text \<open>
  The constructor call of the \<^verbatim>\<open>try\<close> block: \<^verbatim>\<open>issue['id']\<close> first, then one
  \<^verbatim>\<open>analysis_data.get\<close> per field, which needs a dictionary. No value is checked.
\<close>

definition build_issue_analysis :: "pydict \<Rightarrow> pyval \<Rightarrow> exn + IssueAnalysis" where
  "build_issue_analysis issue analysis_data =
     (case dict_item issue ''id'' of
        Inl e \<Rightarrow> Inl e
      | Inr i \<Rightarrow>
          (case analysis_data of
             PDict d \<Rightarrow>
               Inr \<lparr>issue_id = i,
                    complexity_score = dict_get d ''complexity_score'' (PFloat 0.5),
                    difficulty_level = dict_get d ''difficulty_level'' (PStr ''intermediate''),
                    required_skills = dict_get d ''required_skills'' (PList []),
                    estimated_time = dict_get d ''estimated_time'' (PStr str_unknown),
                    solution_approach = dict_get d ''solution_approach'' (PStr []),
                    technical_breakdown = dict_get d ''technical_breakdown'' (PDict []),
                    learning_opportunities = dict_get d ''learning_opportunities'' (PList []),
                    confidence_score = dict_get d ''confidence_score'' (PFloat 0.8)\<rparr>
           | _ \<Rightarrow> Inl AttributeError))"

text \<open>
  analyze\_issue: the prompt is built before the \<^verbatim>\<open>try\<close>; every exception of the
  \<^verbatim>\<open>try\<close> block leads to \_get\_default\_analysis, whose own exception propagates.
\<close>

definition analyze_issue ::
  "(string \<Rightarrow> pyval option) \<Rightarrow> pydict \<Rightarrow> completion \<Rightarrow> exn + IssueAnalysis" where
  "analyze_issue loads issue response =
     (case build_issue_analysis_prompt issue of
        Inl e \<Rightarrow> Inl e
      | Inr prompt \<Rightarrow>
          (case response of
             Raises \<Rightarrow> get_default_analysis issue
           | Content analysis_text \<Rightarrow>
               (case build_issue_analysis issue (parse_analysis_response loads analysis_text) of
                  Inr a \<Rightarrow> Inr a
                | Inl e \<Rightarrow> get_default_analysis issue)))"

section \<open>services/github\_client.py\<close>

subsection \<open>GitHubIssue.from\_api\_response\<close>

text \<open>
  \<^verbatim>\<open>obj[key]\<close> with a string key, the iteration of a comprehension, and
  \<^verbatim>\<open>s.replace('Z', '+00:00')\<close>, on untyped values.
\<close>

fun py_getitem :: "pyval \<Rightarrow> string \<Rightarrow> exn + pyval" where
  "py_getitem (PDict d) k = dict_item d k"
| "py_getitem v k = Inl TypeError"

fun py_iter :: "pyval \<Rightarrow> exn + pyval list" where
  "py_iter (PList xs) = Inr xs"
| "py_iter (PStr s) = Inr (map (\<lambda>c. PStr [c]) s)"
| "py_iter (PDict d) = Inr (map (\<lambda>p. PStr (fst p)) d)"
| "py_iter v = Inl TypeError"

fun replace_Z :: "pyval \<Rightarrow> exn + string" where
  "replace_Z (PStr s) = Inr (concat (map (\<lambda>c. if c = CHR ''Z'' then ''+00:00'' else [c]) s))"
| "replace_Z v = Inl AttributeError"

definition and_then :: "exn + 'a \<Rightarrow> ('a \<Rightarrow> exn + 'b) \<Rightarrow> exn + 'b" where
  "and_then m f = (case m of Inl e \<Rightarrow> Inl e | Inr x \<Rightarrow> f x)"

fun label_names :: "pyval list \<Rightarrow> exn + pyval list" where
  "label_names [] = Inr []"
| "label_names (l # ls) =
     and_then (py_getitem l ''name'') (\<lambda>n. and_then (label_names ls) (\<lambda>ns. Inr (n # ns)))"

text \<open>\<^verbatim>\<open>data[k][sub] if data[k] else None\<close>, for the assignee and the milestone.\<close>

definition optional_sub :: "pydict \<Rightarrow> string \<Rightarrow> string \<Rightarrow> exn + pyval" where
  "optional_sub d k sub =
     and_then (dict_item d k) (\<lambda>v. if truthy v then py_getitem v sub else Inr PNone)"

record 'dt GitHubIssue =
  gh_id :: pyval
  gh_number :: pyval
  gh_title :: pyval
  gh_body :: pyval
  gh_state :: pyval
  gh_labels :: "pyval list"
  gh_created_at :: 'dt
  gh_updated_at :: 'dt
  gh_html_url :: pyval
  gh_comments :: pyval
  gh_reactions :: pyval
  gh_assignee :: pyval
  gh_milestone :: pyval

text \<open>
  The library function \<^verbatim>\<open>datetime.fromisoformat\<close> is the parameter \<open>fromisoformat\<close>.
  The fields are read in the order of the constructor call, so the first failing read
  gives the exception.
\<close>

definition from_api_response ::
  "(string \<Rightarrow> exn + 'dt) \<Rightarrow> pydict \<Rightarrow> exn + 'dt GitHubIssue" where
  "from_api_response fromisoformat d =
     and_then (dict_item d ''id'') (\<lambda>v_id.
     and_then (dict_item d ''number'') (\<lambda>v_number.
     and_then (dict_item d ''title'') (\<lambda>v_title.
     and_then (dict_item d ''body'') (\<lambda>v_body.
     and_then (dict_item d ''state'') (\<lambda>v_state.
     and_then (and_then (and_then (dict_item d ''labels'') py_iter) label_names) (\<lambda>v_labels.
     and_then (and_then (and_then (dict_item d ''created_at'') replace_Z) fromisoformat)
       (\<lambda>v_created.
     and_then (and_then (and_then (dict_item d ''updated_at'') replace_Z) fromisoformat)
       (\<lambda>v_updated.
     and_then (dict_item d ''html_url'') (\<lambda>v_url.
     and_then (dict_item d ''comments'') (\<lambda>v_comments.
     and_then (optional_sub d ''assignee'' ''login'') (\<lambda>v_assignee.
     and_then (optional_sub d ''milestone'' ''title'') (\<lambda>v_milestone.
       Inr \<lparr>gh_id = v_id, gh_number = v_number, gh_title = v_title,
            gh_body = (if truthy v_body then v_body else PStr []),
            gh_state = v_state, gh_labels = v_labels,
            gh_created_at = v_created, gh_updated_at = v_updated,
            gh_html_url = v_url, gh_comments = v_comments,
            gh_reactions = dict_get d ''reactions'' (PDict []),
            gh_assignee = v_assignee, gh_milestone = v_milestone\<rparr>))))))))))))"

subsection \<open>get\_issues\<close>

text \<open>
  The \<^verbatim>\<open>for\<close> loop over one page: an item without the key \<^verbatim>\<open>pull_request\<close> is converted
  and appended. The flag tells that a conversion raised; the issues appended before it
  stay in the list.
\<close>

fun collect_page ::
  "(string \<Rightarrow> exn + 'dt) \<Rightarrow> 'dt GitHubIssue list \<Rightarrow> pydict list \<Rightarrow>
   'dt GitHubIssue list \<times> bool" where
  "collect_page fromisoformat issues [] = (issues, False)"
| "collect_page fromisoformat issues (issue_data # rest) =
     (if map_of issue_data ''pull_request'' = None then
        (case from_api_response fromisoformat issue_data of
           Inl e \<Rightarrow> (issues, True)
         | Inr response \<Rightarrow> collect_page fromisoformat (issues @ [response]) rest)
      else collect_page fromisoformat issues rest)"

text \<open>
  The \<^verbatim>\<open>while True\<close> loop. \<open>remote page\<close> is the outcome of \_make\_request for that page
  number (the other parameters of the request do not change during a call): an exception,
  or the decoded list of items. The result is the list of issues together with the page
  numbers requested, in order; \<open>None\<close> is a loop that never ends. The pause between two
  pages is not modelled.
\<close>

partial_function (option) get_issues_loop ::
  "(string \<Rightarrow> exn + 'dt) \<Rightarrow> (nat \<Rightarrow> exn + pydict list) \<Rightarrow> int \<Rightarrow> nat \<Rightarrow>
   'dt GitHubIssue list \<Rightarrow> nat list \<Rightarrow> ('dt GitHubIssue list \<times> nat list) option" where
  "get_issues_loop fromisoformat remote per_page page issues requested =
     (case remote page of
        Inl e \<Rightarrow> Some (issues, requested @ [page])
      | Inr data \<Rightarrow>
          if data = [] then Some (issues, requested @ [page])
          else if snd (collect_page fromisoformat issues data)
            then Some (fst (collect_page fromisoformat issues data), requested @ [page])
          else if int (length data) < per_page
            then Some (fst (collect_page fromisoformat issues data), requested @ [page])
          else get_issues_loop fromisoformat remote per_page (page + 1)
                 (fst (collect_page fromisoformat issues data)) (requested @ [page]))"

declare get_issues_loop.simps [code]

definition get_issues ::
  "(string \<Rightarrow> exn + 'dt) \<Rightarrow> (nat \<Rightarrow> exn + pydict list) \<Rightarrow> int \<Rightarrow>
   ('dt GitHubIssue list \<times> nat list) option" where
  "get_issues fromisoformat remote per_page =
     get_issues_loop fromisoformat remote per_page 1 [] []"

section \<open>services/feishu\_client.py\<close>

subsection \<open>FeishuCardBuilder.build\_daily\_summary\<close>

text \<open>
  The elements of the card, in order. A text block keeps what it renders instead of the
  rendered markdown: the head block the projects, the issue count and the number of
  recommendations; an item block its number \<open>i + 1\<close> and its recommendation. The note
  with the report time closes the card.
\<close>

datatype element =
    Div_head "pydict list" pyval nat
  | Div_item nat pydict
  | Hr
  | Note

text \<open>
  The loop over \<^verbatim>\<open>enumerate(recommendations[:5])\<close>: the skills are joined (which raises
  unless they are an iterable of strings), the item block is appended, and a divider
  follows when \<^verbatim>\<open>i < len(recommendations[:3]) - 1\<close>. \<open>n3\<close> is that length.
\<close>

fun summary_items :: "nat \<Rightarrow> nat \<Rightarrow> pydict list \<Rightarrow> exn + element list" where
  "summary_items i n3 [] = Inr []"
| "summary_items i n3 (rec # recs) =
     (if \<not> joinable (dict_get rec ''required_skills'' (PList [])) then Inl TypeError
      else
        (case summary_items (Suc i) n3 recs of
           Inl e \<Rightarrow> Inl e
         | Inr es \<Rightarrow>
             Inr (Div_item (i + 1) rec # (if int i < int n3 - 1 then [Hr] else []) @ es)))"

definition build_daily_summary :: "pydict list \<Rightarrow> pyval \<Rightarrow> pydict list \<Rightarrow> exn + element list" where
  "build_daily_summary projects issues_found recommendations =
     (case summary_items 0 (length (take 3 recommendations)) (take 5 recommendations) of
        Inl e \<Rightarrow> Inl e
      | Inr items \<Rightarrow>
          Inr ([Div_head projects issues_found (length recommendations), Hr] @ items
               @ [Hr, Note]))"

subsection \<open>FeishuClient\<close>

text \<open>
  \<^verbatim>\<open>app_id\<close> and \<^verbatim>\<open>app_secret\<close> are strings (empty when not configured); \<^verbatim>\<open>user_id\<close> may be
  \<^verbatim>\<open>None\<close>. The cached token is whatever the token endpoint returned under
  \<^verbatim>\<open>tenant_access_token\<close>, \<^verbatim>\<open>None\<close> at first.
\<close>

record FeishuClient =
  webhook_url :: string
  app_id :: string
  app_secret :: string
  user_id :: "string option"
  access_token :: pyval
  token_expire_time :: rat

definition new_client :: "string \<Rightarrow> string \<Rightarrow> string \<Rightarrow> string option \<Rightarrow> FeishuClient" where
  "new_client url aid secret uid =
     \<lparr>webhook_url = url, app_id = aid, app_secret = secret, user_id = uid,
      access_token = PNone, token_expire_time = 0\<rparr>"

text \<open>The requests a call sends, in order.\<close>

datatype http_request =
    Token_post string string
  | Message_post (sent_receive_id_type: string) (sent_token: pyval) (sent_receive_id: string)
      (sent_msg_type: string) (sent_content: pyval)

fun is_message_post :: "http_request \<Rightarrow> bool" where
  "is_message_post (Message_post t tok rid mt c) = True"
| "is_message_post (Token_post a s) = False"

text \<open>
  What a call finds outside the process: the clock at the expiry test and at the store
  of a new token, the outcome of the token exchange (an exception of the request, of
  \<^verbatim>\<open>raise_for_status\<close> or of the decoding, or the decoded body), and the outcome of the
  message request (an exception, or a status code with the outcome of decoding the body).
\<close>

record world =
  time_at_check :: rat
  time_at_store :: rat
  post_token :: "http_request \<Rightarrow> exn + pyval"
  post_message :: "http_request \<Rightarrow> exn + (int \<times> (exn + pyval))"

text \<open>\<^verbatim>\<open>x == 0\<close> and \<^verbatim>\<open>t + x\<close> for an untyped \<open>x\<close>; the sum raises unless \<open>x\<close> is a number.\<close>

fun py_eq_zero :: "pyval \<Rightarrow> bool" where
  "py_eq_zero (PInt i) = (i = 0)"
| "py_eq_zero (PFloat r) = (r = 0)"
| "py_eq_zero (PBool b) = (\<not> b)"
| "py_eq_zero v = False"

fun py_number :: "pyval \<Rightarrow> rat option" where
  "py_number (PInt i) = Some (of_int i)"
| "py_number (PFloat r) = Some r"
| "py_number (PBool b) = Some (if b then 1 else 0)"
| "py_number v = None"

text \<open>
  \_get\_access\_token returns the token (or \<^verbatim>\<open>None\<close>), the client as it leaves it, and
  the requests sent. The token is stored before the expiry is computed, so it stays
  stored when that computation raises.
\<close>

definition get_access_token :: "FeishuClient \<Rightarrow> world \<Rightarrow> pyval \<times> FeishuClient \<times> http_request list" where
  "get_access_token c w =
     (if truthy (access_token c) \<and> time_at_check w < token_expire_time c
        then (access_token c, c, [])
      else if app_id c = [] \<or> app_secret c = [] then (PNone, c, [])
      else
        (let req = Token_post (app_id c) (app_secret c) in
         case post_token w req of
           Inl e \<Rightarrow> (PNone, c, [req])
         | Inr result \<Rightarrow>
             (case result of
                PDict d \<Rightarrow>
                  if py_eq_zero (dict_get d ''code'' PNone) then
                    (let c1 = c\<lparr>access_token := dict_get d ''tenant_access_token'' PNone\<rparr> in
                     case py_number (dict_get d ''expire'' (PInt 3600)) of
                       None \<Rightarrow> (PNone, c1, [req])
                     | Some expire \<Rightarrow>
                         (access_token c1,
                          c1\<lparr>token_expire_time := time_at_store w + expire - 300\<rparr>,
                          [req]))
                  else (PNone, c, [req])
              | _ \<Rightarrow> (PNone, c, [req]))))"

text \<open>
  The answer to the message request, as send\_api\_message reads it: success needs the
  status 200 and a decoded object whose code is 0; an exception of the request or of the
  decoding is caught.
\<close>

definition message_accepted :: "exn + (int \<times> (exn + pyval)) \<Rightarrow> bool" where
  "message_accepted outcome =
     (case outcome of
        Inl e \<Rightarrow> False
      | Inr (status_code, body) \<Rightarrow>
          if status_code \<noteq> 200 then False
          else
            (case body of
               Inl e \<Rightarrow> False
             | Inr result \<Rightarrow>
                 (case result of
                    PDict d \<Rightarrow> py_eq_zero (dict_get d ''code'' PNone)
                  | _ \<Rightarrow> False)))"

text \<open>
  send\_api\_message returns its boolean, the client and the requests sent. A
  \<^verbatim>\<open>receive_id\<close> of \<^verbatim>\<open>None\<close> raises at \<^verbatim>\<open>startswith\<close>, inside the \<^verbatim>\<open>try\<close>, before
  anything is sent.
\<close>

definition send_api_message ::
  "FeishuClient \<Rightarrow> world \<Rightarrow> string option \<Rightarrow> string \<Rightarrow> pyval \<Rightarrow> string \<Rightarrow>
   bool \<times> FeishuClient \<times> http_request list" where
  "send_api_message c w receive_id msg_type content receive_id_type =
     (case get_access_token c w of
        (token, c', sent) \<Rightarrow>
          if \<not> truthy token then (False, c', sent)
          else
            (case receive_id of
               None \<Rightarrow> (False, c', sent)
             | Some rid \<Rightarrow>
                 (let rtype = (if startswith rid ''ou_'' then ''open_id''
                               else if startswith rid ''oc_'' then ''chat_id''
                               else receive_id_type);
                      req = Message_post rtype token rid msg_type content
                  in (message_accepted (post_message w req), c', sent @ [req]))))"

section \<open>main.py: the project filter of search\_bigdata\_projects\<close>

text \<open>
  \<^verbatim>\<open>str.lower\<close> belongs to the Python library and follows the Unicode case tables. The
  filter takes it as a parameter \<open>lower\<close>, so its theorems hold for every such function.
  \<open>ascii_lower\<close> is the library function on ASCII text (the letters A to Z are mapped,
  every other byte is kept); it is used to evaluate the filter on catalogs and keywords
  written in ASCII.
\<close>

definition lower_char :: "char \<Rightarrow> char" where
  "lower_char c =
     (if 65 \<le> (of_char c :: nat) \<and> (of_char c :: nat) \<le> 90
      then char_of ((of_char c :: nat) + 32) else c)"

definition ascii_lower :: "string \<Rightarrow> string" where
  "ascii_lower s = map lower_char s"

text \<open>The substring test \<^verbatim>\<open>sub in s\<close>.\<close>

fun contains :: "string \<Rightarrow> string \<Rightarrow> bool" where
  "contains [] sub = (sub = [])"
| "contains (c # cs) sub = (startswith (c # cs) sub \<or> contains cs sub)"

text \<open>\<^verbatim>\<open>project[k].lower()\<close>: the key must be there and hold a string.\<close>

definition lower_of :: "(string \<Rightarrow> string) \<Rightarrow> pydict \<Rightarrow> string \<Rightarrow> exn + string" where
  "lower_of lower project k =
     (case dict_item project k of
        Inl e \<Rightarrow> Inl e
      | Inr (PStr s) \<Rightarrow> Inr (lower s)
      | Inr _ \<Rightarrow> Inl AttributeError)"

text \<open>
  The generator under \<^verbatim>\<open>any\<close>: for each keyword the name is tested, and the category only
  when the name does not match; the first match ends the search.
\<close>

fun any_keyword :: "(string \<Rightarrow> string) \<Rightarrow> string list \<Rightarrow> pydict \<Rightarrow> exn + bool" where
  "any_keyword lower [] project = Inr False"
| "any_keyword lower (keyword # keywords) project =
     (case lower_of lower project ''name'' of
        Inl e \<Rightarrow> Inl e
      | Inr name \<Rightarrow>
          if contains name (lower keyword) then Inr True
          else
            (case lower_of lower project ''category'' of
               Inl e \<Rightarrow> Inl e
             | Inr category \<Rightarrow>
                 if contains category (lower keyword) then Inr True
                 else any_keyword lower keywords project))"

definition matches_keyword :: "(string \<Rightarrow> string) \<Rightarrow> string list \<Rightarrow> pydict \<Rightarrow> exn + bool" where
  "matches_keyword lower keywords project =
     (if keywords \<noteq> [] then any_keyword lower keywords project else Inr True)"

definition matches_experience :: "string \<Rightarrow> pydict \<Rightarrow> bool" where
  "matches_experience experience_level project =
     ((experience_level = ''beginner''
         \<and> truthy (dict_get project ''beginner_friendly'' (PBool False)))
      \<or> experience_level = ''intermediate''
      \<or> (experience_level = ''advanced''
         \<and> \<not> truthy (dict_get project ''beginner_friendly'' (PBool True))))"

text \<open>
  The loop that builds \<^verbatim>\<open>filtered_projects\<close>. An exception of the keyword test leaves the
  loop (the handler answers with an error).
\<close>

fun filter_projects ::
  "(string \<Rightarrow> string) \<Rightarrow> string list \<Rightarrow> string \<Rightarrow> pydict list \<Rightarrow> exn + pydict list" where
  "filter_projects lower keywords experience_level [] = Inr []"
| "filter_projects lower keywords experience_level (project # projects) =
     (case matches_keyword lower keywords project of
        Inl e \<Rightarrow> Inl e
      | Inr matches \<Rightarrow>
          (case filter_projects lower keywords experience_level projects of
             Inl e \<Rightarrow> Inl e
           | Inr filtered \<Rightarrow>
               Inr (if matches \<and> matches_experience experience_level project
                    then project # filtered else filtered)))"

section \<open>Vocabulary of the properties\<close>

subsection \<open>Analysis records\<close>

text \<open>
  The invariant of the data model: both scores are numbers between 0 and 1 (Python
  compares \<^verbatim>\<open>False\<close> and \<^verbatim>\<open>True\<close> as 0 and 1), and the difficulty is one of the three tiers.
\<close>

fun unit_interval :: "pyval \<Rightarrow> bool" where
  "unit_interval (PFloat r) = (0 \<le> r \<and> r \<le> 1)"
| "unit_interval (PInt i) = (0 \<le> i \<and> i \<le> 1)"
| "unit_interval (PBool b) = True"
| "unit_interval v = False"

definition difficulty_tier :: "pyval \<Rightarrow> bool" where
  "difficulty_tier v =
     (v = PStr ''beginner'' \<or> v = PStr ''intermediate'' \<or> v = PStr ''advanced'')"

definition analysis_invariant :: "IssueAnalysis \<Rightarrow> bool" where
  "analysis_invariant a =
     (unit_interval (complexity_score a) \<and> unit_interval (confidence_score a)
      \<and> difficulty_tier (difficulty_level a))"

text \<open>The responses and issues used as concrete inputs.\<close>

definition fenced_response :: string where
  \<open>fenced_response =
     ''```json\<newline>{"complexity_score":0.9,"difficulty_level":"advanced"}\<newline>```''\<close>

definition fenced_json :: string where
  \<open>fenced_json = ''{"complexity_score":0.9,"difficulty_level":"advanced"}''\<close>

definition prose_response :: string where
  \<open>prose_response =
     ''The `analysis`:\<newline>```json\<newline>{ "complexity_score": 0.9, "difficulty_level": "advanced" }\<newline>```\<newline>Done.''\<close>

definition spaced_json :: string where
  \<open>spaced_json = ''{ "complexity_score": 0.9, "difficulty_level": "advanced" }''\<close>

definition out_of_range_response :: string where
  \<open>out_of_range_response = ''{"complexity_score": 5, "difficulty_level": "expert"}''\<close>

definition plain_issue :: pydict where
  "plain_issue =
     [(''id'', PInt 1), (''number'', PInt 7), (''title'', PStr ''Fix typo''),
      (''body'', PStr ''The guide has a typo.''), (''labels'', PList [])]"

definition null_body_issue :: pydict where
  "null_body_issue =
     [(''id'', PInt 1), (''number'', PInt 7), (''title'', PStr ''Fix typo''),
      (''body'', PNone), (''labels'', PList [])]"

subsection \<open>Responses with a fenced block\<close>

text \<open>
  The ASCII white space that \<^verbatim>\<open>\s\<close> matches (tab to carriage return, the separators 28
  to 31, the space), and ASCII text without a backtick.
\<close>

definition ascii_space :: "char \<Rightarrow> bool" where
  "ascii_space c =
     ((9 \<le> (of_char c :: nat) \<and> (of_char c :: nat) \<le> 13)
      \<or> (28 \<le> (of_char c :: nat) \<and> (of_char c :: nat) \<le> 32))"

definition ascii_text :: "string \<Rightarrow> bool" where
  "ascii_text s = list_all (\<lambda>c. (of_char c :: nat) < 128 \<and> c \<noteq> CHR 0x60) s"

text \<open>In the text \<open>prefix @ rest\<close>, an opening fence \<^verbatim>\<open>```json\<close> starts inside \<open>prefix\<close>.\<close>

fun opens_before :: "string \<Rightarrow> string \<Rightarrow> bool" where
  "opens_before [] rest = False"
| "opens_before (c # prefix) rest =
     (startswith (c # prefix @ rest) ''```json'' \<or> opens_before prefix rest)"

text \<open>
  The response \<open>prefix @ ''```json'' @ w1 @ body @ w2 @ ''```'' @ suffix\<close> has \<open>body\<close> as its
  first fenced block: no opening fence starts before this one, the body is separated from
  the two fences by ASCII white space (possibly none), and the body is a nonempty ASCII
  text without backticks that neither starts nor ends with white space. The text before
  the block and the text after it are otherwise arbitrary.
\<close>

definition first_block :: "string \<Rightarrow> string \<Rightarrow> string \<Rightarrow> string \<Rightarrow> string \<Rightarrow> bool" where
  "first_block prefix w1 body w2 suffix =
     (\<not> opens_before prefix (''```json'' @ w1 @ body @ w2 @ ''```'' @ suffix)
      \<and> list_all ascii_space w1 \<and> list_all ascii_space w2
      \<and> ascii_text body \<and> body \<noteq> []
      \<and> \<not> ascii_space (hd body) \<and> \<not> ascii_space (last body))"

text \<open>
  A decoded object that specifies only the complexity 0.9 and the difficulty "advanced".
\<close>

definition only_complexity_and_difficulty :: "pydict \<Rightarrow> bool" where
  "only_complexity_and_difficulty d =
     (dom (map_of d) = {''complexity_score'', ''difficulty_level''}
      \<and> map_of d ''complexity_score'' = Some (PFloat 0.9)
      \<and> map_of d ''difficulty_level'' = Some (PStr ''advanced''))"

subsection \<open>Pages of the issue listing\<close>

text \<open>
  A page converts when from\_api\_response accepts each of its items that is not a pull
  request. A page is short when the request succeeds with fewer items than the page size,
  and full when it succeeds with at least that many items, all of which convert.
\<close>

definition converts :: "(string \<Rightarrow> exn + 'dt) \<Rightarrow> pydict \<Rightarrow> bool" where
  "converts fromisoformat d =
     (map_of d ''pull_request'' \<noteq> None \<or> \<not> isl (from_api_response fromisoformat d))"

definition short_page :: "(nat \<Rightarrow> exn + pydict list) \<Rightarrow> int \<Rightarrow> nat \<Rightarrow> bool" where
  "short_page remote per_page p =
     (case remote p of Inl e \<Rightarrow> False | Inr data \<Rightarrow> int (length data) < per_page)"

definition full_page ::
  "(string \<Rightarrow> exn + 'dt) \<Rightarrow> (nat \<Rightarrow> exn + pydict list) \<Rightarrow> int \<Rightarrow> nat \<Rightarrow> bool" where
  "full_page fromisoformat remote per_page p =
     (case remote p of
        Inl e \<Rightarrow> False
      | Inr data \<Rightarrow> per_page \<le> int (length data) \<and> list_all (converts fromisoformat) data)"

definition listed_item :: "int \<Rightarrow> pydict" where
  "listed_item n =
     [(''id'', PInt n), (''number'', PInt n), (''title'', PStr ''t''), (''body'', PNone),
      (''state'', PStr ''open''), (''labels'', PList [PDict [(''name'', PStr ''bug'')]]),
      (''created_at'', PStr ''2024-01-01T00:00:00Z''),
      (''updated_at'', PStr ''2024-01-01T00:00:00Z''),
      (''html_url'', PStr ''u''), (''comments'', PInt 0),
      (''assignee'', PNone), (''milestone'', PNone)]"

definition two_pages :: "nat \<Rightarrow> exn + pydict list" where
  "two_pages p =
     (if p = 1 then Inr [listed_item 1, (''pull_request'', PDict []) # listed_item 2]
      else if p = 2 then Inr [listed_item 3]
      else Inl RequestError)"

definition keep_text :: "string \<Rightarrow> exn + string" where
  "keep_text s = Inr s"

subsection \<open>Messaging\<close>

text \<open>
  The token exchange fails when it leaves \_get\_access\_token without a token to return:
  the request or the decoding raises, the body is not an object with code 0, the expiry
  is not a number, or the token it carries is empty.
\<close>

definition exchange_fails :: "exn + pyval \<Rightarrow> bool" where
  "exchange_fails outcome =
     (case outcome of
        Inl e \<Rightarrow> True
      | Inr result \<Rightarrow>
          (case result of
             PDict d \<Rightarrow>
               \<not> py_eq_zero (dict_get d ''code'' PNone)
               \<or> py_number (dict_get d ''expire'' (PInt 3600)) = None
               \<or> \<not> truthy (dict_get d ''tenant_access_token'' PNone)
           | _ \<Rightarrow> True))"

definition cached_token_valid :: "FeishuClient \<Rightarrow> world \<Rightarrow> bool" where
  "cached_token_valid c w = (truthy (access_token c) \<and> time_at_check w < token_expire_time c)"

definition granting_world :: world where
  "granting_world =
     \<lparr>time_at_check = 1000, time_at_store = 1001,
      post_token = (\<lambda>r. Inr (PDict [(''code'', PInt 0),
                                     (''tenant_access_token'', PStr ''t-abc''),
                                     (''expire'', PInt 7200)])),
      post_message = (\<lambda>r. Inr (200, Inr (PDict [(''code'', PInt 0)])))\<rparr>"

definition configured_client :: FeishuClient where
  "configured_client = new_client ''https://hook'' ''cli_app'' ''secret'' None"

definition unconfigured_client :: FeishuClient where
  "unconfigured_client = new_client ''https://hook'' [] [] None"

definition recommendation :: "string \<Rightarrow> pydict" where
  "recommendation title =
     [(''title'', PStr title), (''url'', PStr ''https://example.org/1''),
      (''difficulty'', PStr ''beginner'')]"

subsection \<open>Project catalog\<close>

definition spark_project :: pydict where
  "spark_project =
     [(''name'', PStr ''spark''), (''owner'', PStr ''apache''),
      (''category'', PStr ''compute''), (''beginner_friendly'', PBool False)]"

definition flink_project :: pydict where
  "flink_project =
     [(''name'', PStr ''flink''), (''owner'', PStr ''apache''),
      (''category'', PStr ''streaming''), (''beginner_friendly'', PBool True)]"

section \<open>Properties of the analysis client\<close>

lemmas json_eval =
  json_loads_def skip_ws_def json_ws_def startswith_def scan_number_def scan_fraction_def
  scan_exponent_def is_digit_def digits_val_def pow10_def unescape_def

lemma prompt_plain_issue: "build_issue_analysis_prompt plain_issue = Inr ()"
  by (simp add: build_issue_analysis_prompt_def plain_issue_def dict_get_def)

lemma id_plain_issue: "dict_item plain_issue ''id'' = Inr (PInt 1)"
  by (simp add: dict_item_def plain_issue_def)

lemma extract_fenced_response: "extract_json_str fenced_response = fenced_json"
  by (simp add: extract_json_str_def fenced_response_def fenced_json_def match_fenced_def
      startswith_def ws_len_def)

lemma loads_fenced_json:
  "json_loads fenced_json =
     Some (PDict [(''complexity_score'', PFloat 0.9), (''difficulty_level'', PStr ''advanced'')])"
  by (simp add: fenced_json_def json_eval)

lemma extract_out_of_range: "extract_json_str out_of_range_response = out_of_range_response"
  by (simp add: extract_json_str_def out_of_range_response_def match_fenced_def
      match_braces_def startswith_def)

lemma loads_out_of_range:
  "json_loads out_of_range_response =
     Some (PDict [(''complexity_score'', PInt 5), (''difficulty_level'', PStr ''expert'')])"
  by (simp add: out_of_range_response_def json_eval)


text \<open>
  The record that analyze\_issue builds when the prompt can be formatted, the issue has
  an id and \_parse\_analysis\_response returns a dictionary.
\<close>

lemma analyze_issue_of_dict:
  assumes "build_issue_analysis_prompt issue = Inr ()"
    and "dict_item issue ''id'' = Inr i"
    and "parse_analysis_response loads c = PDict d"
  shows "analyze_issue loads issue (Content c) =
     Inr \<lparr>issue_id = i,
          complexity_score = dict_get d ''complexity_score'' (PFloat 0.5),
          difficulty_level = dict_get d ''difficulty_level'' (PStr ''intermediate''),
          required_skills = dict_get d ''required_skills'' (PList []),
          estimated_time = dict_get d ''estimated_time'' (PStr str_unknown),
          solution_approach = dict_get d ''solution_approach'' (PStr []),
          technical_breakdown = dict_get d ''technical_breakdown'' (PDict []),
          learning_opportunities = dict_get d ''learning_opportunities'' (PList []),
          confidence_score = dict_get d ''confidence_score'' (PFloat 0.8)\<rparr>"
  using assms by (simp add: analyze_issue_def build_issue_analysis_def)

lemma parse_of_loads:
  "loads (extract_json_str text) = Some v \<Longrightarrow> parse_analysis_response loads (Some text) = v"
  by (simp add: parse_analysis_response_def)


lemma analyze_fenced_response:
  "analyze_issue json_loads plain_issue (Content (Some fenced_response)) =
     Inr \<lparr>issue_id = PInt 1, complexity_score = PFloat 0.9,
          difficulty_level = PStr ''advanced'', required_skills = PList [],
          estimated_time = PStr str_unknown, solution_approach = PStr [],
          technical_breakdown = PDict [], learning_opportunities = PList [],
          confidence_score = PFloat 0.8\<rparr>"
proof -
  have "parse_analysis_response json_loads (Some fenced_response) =
      PDict [(''complexity_score'', PFloat 0.9), (''difficulty_level'', PStr ''advanced'')]"
    by (rule parse_of_loads) (simp only: extract_fenced_response loads_fenced_json)
  from analyze_issue_of_dict [OF prompt_plain_issue id_plain_issue this]
  show ?thesis by (simp add: dict_get_def)
qed

lemma analyze_out_of_range_response:
  "analyze_issue json_loads plain_issue (Content (Some out_of_range_response)) =
     Inr \<lparr>issue_id = PInt 1, complexity_score = PInt 5,
          difficulty_level = PStr ''expert'', required_skills = PList [],
          estimated_time = PStr str_unknown, solution_approach = PStr [],
          technical_breakdown = PDict [], learning_opportunities = PList [],
          confidence_score = PFloat 0.8\<rparr>"
proof -
  have "parse_analysis_response json_loads (Some out_of_range_response) =
      PDict [(''complexity_score'', PInt 5), (''difficulty_level'', PStr ''expert'')]"
    by (rule parse_of_loads) (simp only: extract_out_of_range loads_out_of_range)
  from analyze_issue_of_dict [OF prompt_plain_issue id_plain_issue this]
  show ?thesis by (simp add: dict_get_def)
qed

subsection \<open>The first fenced block of a response\<close>

lemma ws_len_ascii:
  assumes "(of_char c :: nat) < 128"
  shows "ws_len (c # cs) = (if ascii_space c then 1 else 0)"
proof -
  from assms have "c \<noteq> CHR 0xC2" "c \<noteq> CHR 0xE1" "c \<noteq> CHR 0xE2" "c \<noteq> CHR 0xE3"
    by auto
  then show ?thesis by (simp add: ws_len_def ascii_space_def)
qed

lemma ws_len_space: "ascii_space c \<Longrightarrow> ws_len (c # cs) = 1"
  by (simp add: ws_len_def ascii_space_def)

lemma lstrip_ws_keep: "ws_len s = 0 \<Longrightarrow> lstrip_ws s = s"
  by (subst lstrip_ws.simps) simp

lemma lstrip_ws_step: "ws_len s \<noteq> 0 \<Longrightarrow> lstrip_ws s = lstrip_ws (drop (ws_len s) s)"
  by (subst lstrip_ws.simps) simp

lemma lstrip_ws_spaces: "list_all ascii_space w \<Longrightarrow> lstrip_ws (w @ s) = lstrip_ws s"
proof (induction w)
  case Nil
  then show ?case by simp
next
  case (Cons c w)
  then have "ws_len (c # w @ s) = 1" by (simp add: ws_len_space)
  with lstrip_ws_step [of "c # w @ s"] Cons show ?case by (simp del: lstrip_ws.simps)
qed

text \<open>
  A closing fence, with the white space before it, never starts inside ASCII text
  without backticks that is followed by a byte other than white space.
\<close>

lemma no_fence_in_text:
  assumes "ascii_text (a @ [c])" and "\<not> ascii_space c"
  shows "\<not> startswith (lstrip_ws (a @ c # b)) ''```''"
  using assms(1)
proof (induction a)
  case Nil
  then have c: "(of_char c :: nat) < 128" "c \<noteq> CHR 0x60" by (simp_all add: ascii_text_def)
  with assms(2) have "ws_len (c # b) = 0" by (simp add: ws_len_ascii)
  then have "lstrip_ws (c # b) = c # b" by (rule lstrip_ws_keep)
  with c show ?case by (simp add: startswith_def del: lstrip_ws.simps)
next
  case (Cons x a)
  then have x: "(of_char x :: nat) < 128" "x \<noteq> CHR 0x60" and a: "ascii_text (a @ [c])"
    by (simp_all add: ascii_text_def)
  show ?case
  proof (cases "ascii_space x")
    case False
    with x have "ws_len (x # a @ c # b) = 0" by (simp add: ws_len_ascii)
    then have "lstrip_ws (x # a @ c # b) = x # a @ c # b" by (rule lstrip_ws_keep)
    with x show ?thesis by (simp add: startswith_def del: lstrip_ws.simps)
  next
    case True
    then have "ws_len (x # a @ c # b) = 1" by (rule ws_len_space)
    with lstrip_ws_step [of "x # a @ c # b"]
    have "lstrip_ws ((x # a) @ c # b) = lstrip_ws (a @ c # b)" by (simp del: lstrip_ws.simps)
    with Cons.IH [OF a] show ?thesis by (simp del: lstrip_ws.simps)
  qed
qed

lemma lazy_group_at_fence:
  assumes "list_all ascii_space w"
  shows "lazy_group acc (w @ ''```'' @ suffix) = Some (rev acc)"
proof -
  have "lstrip_ws (''```'' @ suffix) = ''```'' @ suffix"
    by (rule lstrip_ws_keep) (simp add: ws_len_def)
  with lstrip_ws_spaces [OF assms, of "''```'' @ suffix"]
  have s: "startswith (lstrip_ws (w @ ''```'' @ suffix)) ''```''"
    by (simp add: startswith_def del: lstrip_ws.simps)
  show ?thesis
  proof (cases "w @ ''```'' @ suffix")
    case Nil
    then show ?thesis by simp
  next
    case (Cons c cs)
    with s show ?thesis by (simp del: lstrip_ws.simps)
  qed
qed

lemma append_last: "xs \<noteq> [] \<Longrightarrow> xs @ ys = butlast xs @ last xs # ys"
  by (induction xs) auto

text \<open>
  The lazy group stops at the closing fence of the block: it takes the whole body, and
  leaves the white space before the fence to the pattern.
\<close>

lemma lazy_group_body:
  assumes "list_all ascii_space w"
  shows "ascii_text body \<Longrightarrow> body = [] \<or> \<not> ascii_space (last body) \<Longrightarrow>
         lazy_group acc (body @ w @ ''```'' @ suffix) = Some (rev acc @ body)"
proof (induction body arbitrary: acc)
  case Nil
  with lazy_group_at_fence [OF assms] show ?case by (simp del: lstrip_ws.simps)
next
  case (Cons c body)
  from Cons.prems have l: "\<not> ascii_space (last (c # body))" by simp
  have sp: "(c # body) @ w @ ''```'' @ suffix =
      butlast (c # body) @ last (c # body) # (w @ ''```'' @ suffix)"
    by (rule append_last) simp
  have "butlast (c # body) @ [last (c # body)] = c # body" by (rule append_butlast_last_id) simp
  with Cons.prems(1) have "ascii_text (butlast (c # body) @ [last (c # body)])" by simp
  then have nf: "\<not> startswith (lstrip_ws ((c # body) @ w @ ''```'' @ suffix)) ''```''"
    unfolding sp using l by (rule no_fence_in_text)
  from Cons.prems have b: "ascii_text body" "body = [] \<or> \<not> ascii_space (last body)"
    by (auto simp: ascii_text_def split: if_splits)
  from nf have "lazy_group acc ((c # body) @ w @ ''```'' @ suffix) =
      lazy_group (c # acc) (body @ w @ ''```'' @ suffix)"
    by (simp del: lstrip_ws.simps)
  with Cons.IH [OF b, of "c # acc"] show ?case by (simp del: lstrip_ws.simps)
qed

lemma search_fenced_skip:
  "\<not> opens_before prefix rest \<Longrightarrow> search_fenced (prefix @ rest) = search_fenced rest"
proof (induction prefix)
  case Nil
  then show ?case by simp
next
  case (Cons c p)
  then have "\<not> startswith (c # p @ rest) ''```json''" and p: "\<not> opens_before p rest"
    by simp_all
  then have "match_fenced (c # p @ rest) = None" by (simp add: match_fenced_def)
  with Cons.IH [OF p] show ?case by simp
qed

lemma search_fenced_block:
  assumes "first_block prefix w1 body w2 suffix"
  shows "search_fenced (prefix @ ''```json'' @ w1 @ body @ w2 @ ''```'' @ suffix) = Some body"
proof -
  let ?rest = "body @ w2 @ ''```'' @ suffix"
  from assms have nb: "\<not> opens_before prefix (''```json'' @ w1 @ ?rest)"
    and w1: "list_all ascii_space w1" and w2: "list_all ascii_space w2"
    and t: "ascii_text body" and ne: "body \<noteq> []"
    and h: "\<not> ascii_space (hd body)" and l: "\<not> ascii_space (last body)"
    by (simp_all add: first_block_def)
  from ne obtain c cs where body: "body = c # cs" by (cases body) auto
  with t have "(of_char c :: nat) < 128" by (simp add: ascii_text_def)
  with h body have "ws_len ?rest = 0" by (simp add: ws_len_ascii)
  then have "lstrip_ws ?rest = ?rest" by (rule lstrip_ws_keep)
  with lstrip_ws_spaces [OF w1, of ?rest] have "lstrip_ws (w1 @ ?rest) = ?rest"
    by (simp del: lstrip_ws.simps)
  moreover have "lazy_group [] ?rest = Some body"
    using lazy_group_body [OF w2 t, of "[]" suffix] l by (simp del: lstrip_ws.simps)
  ultimately have "match_fenced (''```json'' @ w1 @ ?rest) = Some body"
    by (simp add: match_fenced_def startswith_def del: lstrip_ws.simps)
  then have "search_fenced (''```json'' @ w1 @ ?rest) = Some body"
    by (simp del: lstrip_ws.simps)
  with search_fenced_skip [OF nb] show ?thesis by (simp del: lstrip_ws.simps)
qed

lemma absent_key:
  "only_complexity_and_difficulty d \<Longrightarrow> k \<noteq> ''complexity_score'' \<Longrightarrow>
   k \<noteq> ''difficulty_level'' \<Longrightarrow> dict_get d k dflt = dflt"
proof -
  assume "only_complexity_and_difficulty d" and "k \<noteq> ''complexity_score''"
    and "k \<noteq> ''difficulty_level''"
  then have "k \<notin> dom (map_of d)" by (simp add: only_complexity_and_difficulty_def)
  then have "map_of d k = None" by (simp add: domIff)
  then show ?thesis by (simp add: dict_get_def)
qed

lemma prose_response_parts:
  \<open>prose_response =
     ''The `analysis`:\<newline>'' @ ''```json'' @ ''\<newline>'' @ spaced_json @ ''\<newline>'' @ ''```''
       @ ''\<newline>Done.''\<close>
  by (simp add: prose_response_def spaced_json_def)

lemma prose_response_block:
  \<open>first_block ''The `analysis`:\<newline>'' ''\<newline>'' spaced_json ''\<newline>'' ''\<newline>Done.''\<close>
  by (simp add: first_block_def startswith_def ascii_space_def ascii_text_def spaced_json_def)

lemma loads_spaced_json:
  "json_loads spaced_json =
     Some (PDict [(''complexity_score'', PFloat 0.9), (''difficulty_level'', PStr ''advanced'')])"
  by (simp add: spaced_json_def json_eval)

lemma two_values:
  "only_complexity_and_difficulty
     [(''complexity_score'', PFloat 0.9), (''difficulty_level'', PStr ''advanced'')]"
  by (auto simp: only_complexity_and_difficulty_def)

subsection \<open>The claims\<close>



text \<open>
  C2, as the claim states it, fails: for the fenced response that gives only a
  complexity of 0.9 and the difficulty "advanced", the confidence of the record is not
  0.5.
\<close>

theorem fenced_response_confidence_counterexample:
  "\<not> isl (analyze_issue json_loads plain_issue (Content (Some fenced_response)))
   \<and> confidence_score
       (projr (analyze_issue json_loads plain_issue (Content (Some fenced_response))))
     \<noteq> PFloat 0.5"
  by (simp add: analyze_fenced_response)

text \<open>
  C2, amended. Take a response whose first fenced block holds a JSON text that the
  decoder reads as an object specifying only the complexity 0.9 and the difficulty
  "advanced": any text may come before the block, as long as no \<^verbatim>\<open>```json\<close> fence opens in
  it, and any text after it. Then, for every decoder, analyze\_issue returns complexity
  0.9 and difficulty "advanced", and fills the other fields with the defaults of its own
  lookups: confidence 0.8, no skills, an empty breakdown, no learning opportunities, the
  literal for "unknown" as estimated time and the empty string as solution approach.
\<close>

theorem analyze_issue_fenced_block:
  assumes "first_block prefix w1 body w2 suffix"
    and "loads body = Some (PDict d)" and "only_complexity_and_difficulty d"
    and "build_issue_analysis_prompt issue = Inr ()" and "dict_item issue ''id'' = Inr i"
  shows "analyze_issue loads issue
           (Content (Some (prefix @ ''```json'' @ w1 @ body @ w2 @ ''```'' @ suffix))) =
     Inr \<lparr>issue_id = i, complexity_score = PFloat 0.9,
          difficulty_level = PStr ''advanced'', required_skills = PList [],
          estimated_time = PStr str_unknown, solution_approach = PStr [],
          technical_breakdown = PDict [], learning_opportunities = PList [],
          confidence_score = PFloat 0.8\<rparr>"
proof -
  let ?response = "prefix @ ''```json'' @ w1 @ body @ w2 @ ''```'' @ suffix"
  from search_fenced_block [OF assms(1)] have "extract_json_str ?response = body"
    by (simp only: extract_json_str_def option.case)
  with assms(2) have "loads (extract_json_str ?response) = Some (PDict d)" by (simp only:)
  then have "parse_analysis_response loads (Some ?response) = PDict d" by (rule parse_of_loads)
  from analyze_issue_of_dict [OF assms(4,5) this]
  have r: "analyze_issue loads issue (Content (Some ?response)) =
     Inr \<lparr>issue_id = i,
          complexity_score = dict_get d ''complexity_score'' (PFloat 0.5),
          difficulty_level = dict_get d ''difficulty_level'' (PStr ''intermediate''),
          required_skills = dict_get d ''required_skills'' (PList []),
          estimated_time = dict_get d ''estimated_time'' (PStr str_unknown),
          solution_approach = dict_get d ''solution_approach'' (PStr []),
          technical_breakdown = dict_get d ''technical_breakdown'' (PDict []),
          learning_opportunities = dict_get d ''learning_opportunities'' (PList []),
          confidence_score = dict_get d ''confidence_score'' (PFloat 0.8)\<rparr>" .
  from assms(3) have v: "dict_get d ''complexity_score'' (PFloat 0.5) = PFloat 0.9"
    "dict_get d ''difficulty_level'' (PStr ''intermediate'') = PStr ''advanced''"
    by (simp_all add: only_complexity_and_difficulty_def dict_get_def)
  have a: "dict_get d ''required_skills'' (PList []) = PList []"
    "dict_get d ''estimated_time'' (PStr str_unknown) = PStr str_unknown"
    "dict_get d ''solution_approach'' (PStr []) = PStr []"
    "dict_get d ''technical_breakdown'' (PDict []) = PDict []"
    "dict_get d ''learning_opportunities'' (PList []) = PList []"
    "dict_get d ''confidence_score'' (PFloat 0.8) = PFloat 0.8"
    by (simp_all add: absent_key [OF assms(3)])
  show ?thesis by (simp only: r v a)
qed

theorem analyze_issue_fenced_block_witness:
  "analyze_issue json_loads plain_issue (Content (Some prose_response)) =
     Inr \<lparr>issue_id = PInt 1, complexity_score = PFloat 0.9,
          difficulty_level = PStr ''advanced'', required_skills = PList [],
          estimated_time = PStr str_unknown, solution_approach = PStr [],
          technical_breakdown = PDict [], learning_opportunities = PList [],
          confidence_score = PFloat 0.8\<rparr>"
  unfolding prose_response_parts
  by (rule analyze_issue_fenced_block
        [of _ _ _ _ _ json_loads,
         OF prose_response_block loads_spaced_json two_values prompt_plain_issue
            id_plain_issue])

text \<open>
  C3. The claim says that analyze\_issue never raises. The prompt is formatted before
  the \<^verbatim>\<open>try\<close> block: for an issue whose body is \<^verbatim>\<open>None\<close> (the tracker's value for an
  issue without description) the slice of the body raises a TypeError, which leaves
  analyze\_issue whatever the decoder and the completion are.
\<close>

theorem analyze_issue_raises_on_null_body:
  "analyze_issue loads null_body_issue response = Inl TypeError"
  by (simp add: analyze_issue_def build_issue_analysis_prompt_def null_body_issue_def
      dict_get_def)

text \<open>
  C4. The claim says that every record satisfies the invariant, the default tier
  standing in for a difficulty outside the enumeration; the data class states the same
  ranges in the comments of its fields (\<^verbatim>\<open>0-1\<close> at \<^verbatim>\<open>complexity_score\<close>,
  \<^verbatim>\<open>beginner/intermediate/advanced\<close> at \<^verbatim>\<open>difficulty_level\<close>), and the prompt asks the
  model for them. The code checks nothing:
  for a response whose JSON gives the complexity 5 and the difficulty "expert",
  analyze\_issue returns a record that carries these two values, and the invariant
  fails.
\<close>

theorem analyze_issue_out_of_range_unchecked:
  "\<exists>a. analyze_issue json_loads plain_issue (Content (Some out_of_range_response)) = Inr a
       \<and> complexity_score a = PInt 5 \<and> difficulty_level a = PStr ''expert''
       \<and> \<not> analysis_invariant a"
  by (simp add: analyze_out_of_range_response analysis_invariant_def)

section \<open>Properties of the issue listing\<close>

lemma collect_page_converts:
  "list_all (converts f) data \<Longrightarrow> \<not> snd (collect_page f issues data)"
  by (induction data arbitrary: issues) (auto simp: converts_def split: sum.splits)

text \<open>From a full page the loop goes on to the next page, with that page recorded.\<close>

lemma loop_step_full_page:
  assumes "full_page f remote per_page page" and "0 < per_page"
  shows "\<exists>issues'. get_issues_loop f remote per_page page issues requested =
           get_issues_loop f remote per_page (page + 1) issues' (requested @ [page])"
proof -
  from assms(1) obtain data where d: "remote page = Inr data"
    "per_page \<le> int (length data)" "list_all (converts f) data"
    by (auto simp: full_page_def split: sum.splits)
  from d(2) assms(2) have ne: "data \<noteq> []" by auto
  have "get_issues_loop f remote per_page page issues requested =
      get_issues_loop f remote per_page (page + 1) (fst (collect_page f issues data))
        (requested @ [page])"
    by (subst get_issues_loop.simps)
       (use d ne collect_page_converts [OF d(3), of issues] in simp)
  then show ?thesis by blast
qed

text \<open>At a short page the loop ends, with that page as the last one requested.\<close>

lemma loop_stops_short_page:
  assumes "short_page remote per_page page"
  shows "\<exists>issues'. get_issues_loop f remote per_page page issues requested =
           Some (issues', requested @ [page])"
proof -
  from assms obtain data where d: "remote page = Inr data" "int (length data) < per_page"
    by (auto simp: short_page_def split: sum.splits)
  show ?thesis
    by (subst get_issues_loop.simps) (simp add: d)
qed

lemma loop_reaches_short_page:
  assumes "0 < per_page" and "short_page remote per_page k"
    and "\<forall>p. page \<le> p \<and> p < k \<longrightarrow> full_page f remote per_page p"
    and "page \<le> k"
  shows "\<exists>issues'. get_issues_loop f remote per_page page issues requested =
           Some (issues', requested @ [page..<Suc k])"
  using assms(3,4)
proof (induction "k - page" arbitrary: page issues requested)
  case 0
  then have "page = k" by simp
  with loop_stops_short_page [OF assms(2), of f issues requested] show ?case by simp
next
  case (Suc n)
  then have lt: "page < k" by simp
  with Suc.prems(1) have "full_page f remote per_page page" by simp
  from loop_step_full_page [OF this assms(1), of issues requested] obtain issues1 where
    step: "get_issues_loop f remote per_page page issues requested =
             get_issues_loop f remote per_page (page + 1) issues1 (requested @ [page])"
    by blast
  have n: "n = k - (page + 1)" using Suc.hyps(2) by simp
  have full: "\<forall>p. page + 1 \<le> p \<and> p < k \<longrightarrow> full_page f remote per_page p"
    using Suc.prems(1) by simp
  from Suc.hyps(1) [OF n full, of issues1 "requested @ [page]"] lt obtain issues' where
    rest: "get_issues_loop f remote per_page (page + 1) issues1 (requested @ [page]) =
             Some (issues', (requested @ [page]) @ [page + 1..<Suc k])"
    by auto
  have "requested @ [page..<Suc k] = (requested @ [page]) @ [page + 1..<Suc k]"
    using lt by (simp add: upt_conv_Cons del: upt_Suc)
  with step rest show ?case by simp
qed

text \<open>
  Whatever the remote does: when the loop returns, it has requested the pages from its
  first page to some last page \<open>n\<close>, and every page before \<open>n\<close> came back with at least
  \<open>per_page\<close> items.
\<close>

lemma loop_requests:
  assumes "get_issues_loop f remote per_page page issues requested = Some result"
  shows "\<exists>n\<ge>page. snd result = requested @ [page..<Suc n]
            \<and> (\<forall>q. page \<le> q \<and> q < n \<longrightarrow> \<not> short_page remote per_page q)"
  using assms
proof (induction f remote per_page page issues requested result
    rule: get_issues_loop.raw_induct [rotated 1, consumes 1])
  case (1 loop f remote per_page page issues requested result)
  have here: "requested @ [page] = requested @ [page..<Suc page]
      \<and> (\<forall>q. page \<le> q \<and> q < page \<longrightarrow> \<not> short_page remote per_page q)"
    by auto
  show ?case
  proof (cases "remote page")
    case (Inl e)
    with 1(2) have "snd result = requested @ [page]" by auto
    with here show ?thesis by (metis order_refl)
  next
    case (Inr data)
    show ?thesis
    proof (cases "data = [] \<or> snd (collect_page f issues data) \<or> int (length data) < per_page")
      case True
      with 1(2) Inr have "snd result = requested @ [page]"
        by (auto split: if_splits)
      with here show ?thesis by (metis order_refl)
    next
      case False
      with 1(2) Inr have "loop f remote per_page (page + 1)
          (fst (collect_page f issues data)) (requested @ [page]) = Some result"
        by simp
      from 1(1) [OF this] obtain n where n: "page + 1 \<le> n"
        "snd result = (requested @ [page]) @ [page + 1..<Suc n]"
        "\<forall>q. page + 1 \<le> q \<and> q < n \<longrightarrow> \<not> short_page remote per_page q"
        by (elim exE conjE)
      from False Inr have full: "\<not> short_page remote per_page page"
        by (simp add: short_page_def)
      have r: "snd result = requested @ [page..<Suc n]"
        using n(1,2) by (simp add: upt_conv_Cons del: upt_Suc)
      have q: "\<forall>q. page \<le> q \<and> q < n \<longrightarrow> \<not> short_page remote per_page q"
      proof (intro allI impI)
        fix q assume q: "page \<le> q \<and> q < n"
        show "\<not> short_page remote per_page q"
        proof (cases "q = page")
          case True
          with full show ?thesis by simp
        next
          case False
          with q have "page + 1 \<le> q \<and> q < n" by simp
          with n(3) show ?thesis by blast
        qed
      qed
      have "page \<le> n" using n(1) by simp
      with r q show ?thesis by (intro exI [of _ n] conjI)
    qed
  qed
qed

text \<open>
  C5. Let page \<open>k\<close> be the first short page of the listing: it comes back with fewer
  items than the page size (pull requests counted), and the pages before it are full.
  Then get\_issues returns, and the pages it has requested are exactly 1 to \<open>k\<close>: it
  goes on after every full page and stops at the short one. And for every remote,
  failing requests included, no page is ever requested after a short page.
\<close>

theorem get_issues_stops_at_first_short_page:
  assumes "0 < per_page" and "1 \<le> k" and "short_page remote per_page k"
    and "\<forall>p. 1 \<le> p \<and> p < k \<longrightarrow> full_page fromisoformat remote per_page p"
  shows "(\<exists>issues. get_issues fromisoformat remote per_page = Some (issues, [1..<Suc k]))
     \<and> (\<forall>other issues requested p q.
          get_issues fromisoformat other per_page = Some (issues, requested)
          \<and> p \<in> set requested \<and> 1 \<le> q \<and> q < p \<longrightarrow> \<not> short_page other per_page q)"
proof
  from loop_reaches_short_page [OF assms(1,3,4,2), of "[]" "[]"]
  show "\<exists>issues. get_issues fromisoformat remote per_page = Some (issues, [1..<Suc k])"
    by (simp add: get_issues_def)
next
  show "\<forall>other issues requested p q.
          get_issues fromisoformat other per_page = Some (issues, requested)
          \<and> p \<in> set requested \<and> 1 \<le> q \<and> q < p \<longrightarrow> \<not> short_page other per_page q"
  proof (intro allI impI)
    fix other issues requested p q
    assume a: "get_issues fromisoformat other per_page = Some (issues, requested)
          \<and> p \<in> set requested \<and> 1 \<le> q \<and> q < p"
    then have "get_issues_loop fromisoformat other per_page 1 [] [] = Some (issues, requested)"
      by (simp add: get_issues_def)
    from loop_requests [OF this] obtain n where n: "requested = [] @ [1..<Suc n]"
      "\<forall>q. 1 \<le> q \<and> q < n \<longrightarrow> \<not> short_page other per_page q"
      by auto
    from a n(1) have "p \<le> n" by auto
    with a have "1 \<le> q \<and> q < n" by simp
    with n(2) show "\<not> short_page other per_page q" by blast
  qed
qed

lemma two_pages_short: "short_page two_pages 2 2"
  by (simp add: short_page_def two_pages_def)

lemma two_pages_full: "\<forall>p. 1 \<le> p \<and> p < 2 \<longrightarrow> full_page keep_text two_pages 2 p"
proof (intro allI impI)
  fix p :: nat assume "1 \<le> p \<and> p < 2"
  then have p: "p = 1" by simp
  show "full_page keep_text two_pages 2 p"
    unfolding p
    by (simp add: full_page_def two_pages_def converts_def listed_item_def
        from_api_response_def and_then_def dict_item_def optional_sub_def keep_text_def)
qed

theorem get_issues_stops_at_first_short_page_witness:
  "map_option snd (get_issues keep_text two_pages 2) = Some [1, 2]
   \<and> short_page two_pages 2 2 \<and> full_page keep_text two_pages 2 1"
proof -
  have one: "(1::nat) \<le> 2" and pos: "(0::int) < 2" by simp_all
  from get_issues_stops_at_first_short_page [OF pos one two_pages_short two_pages_full]
  obtain issues where "get_issues keep_text two_pages 2 = Some (issues, [1..<Suc 2])"
    by blast
  moreover have "[1..<Suc 2] = [1, 2::nat]" by (simp add: upt_rec)
  ultimately show ?thesis
    using two_pages_short two_pages_full by simp
qed

section \<open>Properties of the notification client\<close>

text \<open>
  C8. The claim asks for a divider between every two consecutive summaries. With four
  recommendations the card holds four item blocks, and no divider stands between the
  third and the fourth: the divider test counts the first three recommendations where
  the loop runs over the first five.
\<close>

theorem build_daily_summary_four_recommendations:
  "build_daily_summary [] (PInt 4)
     [recommendation ''a'', recommendation ''b'', recommendation ''c'', recommendation ''d''] =
   Inr [Div_head [] (PInt 4) 4, Hr,
        Div_item 1 (recommendation ''a''), Hr,
        Div_item 2 (recommendation ''b''), Hr,
        Div_item 3 (recommendation ''c''),
        Div_item 4 (recommendation ''d''),
        Hr, Note]"
  by (simp add: build_daily_summary_def recommendation_def dict_get_def)

text \<open>
  C6. Whenever send\_api\_message has a token, it sends exactly one message request after
  the requests of the token step, and that request carries the type \<open>open_id\<close> for an id
  that begins with \<open>ou_\<close> and \<open>chat_id\<close> for one that begins with \<open>oc_\<close>, whatever type
  the caller passed.
\<close>

theorem send_api_message_prefix_decides_type:
  assumes "get_access_token c w = (token, c', sent)" and "truthy token"
  shows "(startswith rid ''ou_'' \<longrightarrow>
            snd (snd (send_api_message c w (Some rid) msg_type content receive_id_type)) =
              sent @ [Message_post ''open_id'' token rid msg_type content])
       \<and> (startswith rid ''oc_'' \<longrightarrow>
            snd (snd (send_api_message c w (Some rid) msg_type content receive_id_type)) =
              sent @ [Message_post ''chat_id'' token rid msg_type content])"
proof -
  have "startswith rid ''oc_'' \<Longrightarrow> \<not> startswith rid ''ou_''"
    by (auto simp: startswith_def)
  with assms show ?thesis
    by (simp add: send_api_message_def Let_def)
qed

lemma granted_token:
  "get_access_token configured_client granting_world =
     (PStr ''t-abc'',
      configured_client\<lparr>access_token := PStr ''t-abc'', token_expire_time := 7901\<rparr>,
      [Token_post ''cli_app'' ''secret''])"
  by (simp add: get_access_token_def configured_client_def new_client_def granting_world_def
      dict_get_def Let_def)

theorem send_api_message_prefix_decides_type_witness:
  "snd (snd (send_api_message configured_client granting_world (Some ''ou_123'')
               ''interactive'' (PDict []) ''chat_id'')) =
     [Token_post ''cli_app'' ''secret'',
      Message_post ''open_id'' (PStr ''t-abc'') ''ou_123'' ''interactive'' (PDict [])]
   \<and> snd (snd (send_api_message configured_client granting_world (Some ''oc_456'')
               ''interactive'' (PDict []) ''open_id'')) =
     [Token_post ''cli_app'' ''secret'',
      Message_post ''chat_id'' (PStr ''t-abc'') ''oc_456'' ''interactive'' (PDict [])]"
proof -
  have t: "truthy (PStr ''t-abc'')" by simp
  have ou: "startswith ''ou_123'' ''ou_''" and oc: "startswith ''oc_456'' ''oc_''"
    by (simp_all add: startswith_def)
  from send_api_message_prefix_decides_type [OF granted_token t, of "''ou_123''"] ou
    send_api_message_prefix_decides_type [OF granted_token t, of "''oc_456''"] oc
  show ?thesis by simp
qed

text \<open>When \_get\_access\_token has no token to return, nothing is sent to the message endpoint.\<close>

lemma no_token_no_message:
  assumes "\<not> truthy (fst (get_access_token c w))"
  shows "fst (send_api_message c w receive_id msg_type content receive_id_type) = False
     \<and> snd (snd (send_api_message c w receive_id msg_type content receive_id_type)) =
         snd (snd (get_access_token c w))"
proof -
  obtain token c' sent where g: "get_access_token c w = (token, c', sent)"
    by (cases "get_access_token c w")
  with assms show ?thesis by (simp add: send_api_message_def)
qed

lemma token_requests:
  "list_all (\<lambda>r. \<not> is_message_post r) (snd (snd (get_access_token c w)))"
  by (simp add: get_access_token_def Let_def split: sum.splits pyval.splits option.splits)

lemma no_token:
  assumes "\<not> cached_token_valid c w"
    and "app_id c = [] \<or> app_secret c = []
         \<or> exchange_fails (post_token w (Token_post (app_id c) (app_secret c)))"
  shows "\<not> truthy (fst (get_access_token c w))"
  using assms
  by (auto simp: get_access_token_def cached_token_valid_def exchange_fails_def Let_def
      split: sum.splits pyval.splits option.splits)

text \<open>
  C10. When no unexpired cached token exists and either the app id or the app secret is
  absent or the token exchange fails, send\_api\_message returns False and none of the
  requests it has sent goes to the message endpoint.
\<close>

theorem send_api_message_without_token:
  assumes "\<not> cached_token_valid c w"
    and "app_id c = [] \<or> app_secret c = []
         \<or> exchange_fails (post_token w (Token_post (app_id c) (app_secret c)))"
  shows "fst (send_api_message c w receive_id msg_type content receive_id_type) = False
     \<and> list_all (\<lambda>r. \<not> is_message_post r)
         (snd (snd (send_api_message c w receive_id msg_type content receive_id_type)))"
  using no_token_no_message [OF no_token [OF assms]] token_requests [of c w] by simp

lemma unconfigured_no_cache: "\<not> cached_token_valid unconfigured_client granting_world"
  by (simp add: cached_token_valid_def unconfigured_client_def new_client_def)

lemma unconfigured_no_app_id: "app_id unconfigured_client = []"
  by (simp add: unconfigured_client_def new_client_def)

theorem send_api_message_without_token_witness:
  "fst (send_api_message unconfigured_client granting_world (Some ''ou_123'')
          ''interactive'' (PDict []) ''open_id'') = False
   \<and> list_all (\<lambda>r. \<not> is_message_post r)
       (snd (snd (send_api_message unconfigured_client granting_world (Some ''ou_123'')
                    ''interactive'' (PDict []) ''open_id'')))"
  by (rule send_api_message_without_token [OF unconfigured_no_cache])
     (simp add: unconfigured_no_app_id)

section \<open>Properties of the project filter\<close>

lemma filter_projects_member:
  "filter_projects lower keywords level projects = Inr filtered \<Longrightarrow>
   p \<in> set filtered \<longleftrightarrow>
     p \<in> set projects \<and> matches_keyword lower keywords p = Inr True
     \<and> matches_experience level p"
proof (induction projects arbitrary: filtered)
  case Nil
  then show ?case by simp
next
  case (Cons q qs)
  from Cons.prems obtain m r where m: "matches_keyword lower keywords q = Inr m"
    and r: "filter_projects lower keywords level qs = Inr r"
    and f: "filtered = (if m \<and> matches_experience level q then q # r else r)"
    by (simp split: sum.splits)
  note IH = Cons.IH [OF r]
  show ?case
  proof (cases "m \<and> matches_experience level q")
    case True
    with f have "filtered = q # r" by simp
    with IH m True show ?thesis by auto
  next
    case False
    with f have "filtered = r" by simp
    with IH m False show ?thesis by auto
  qed
qed

lemma not_friendly_beginner:
  "map_of project ''beginner_friendly'' = Some (PBool False) \<Longrightarrow>
   \<not> matches_experience ''beginner'' project"
  by (simp add: matches_experience_def dict_get_def)

lemma not_friendly_advanced:
  "map_of project ''beginner_friendly'' = Some (PBool False) \<Longrightarrow>
   matches_experience ''advanced'' project"
  by (simp add: matches_experience_def dict_get_def)

text \<open>
  C7. In a catalog that the filter accepts, a project whose \<open>beginner_friendly\<close> flag is
  False is left out for the experience level "beginner", and is kept for the level
  "advanced" when it passes the keyword test. This holds whatever \<^verbatim>\<open>str.lower\<close> does.
\<close>

theorem search_filter_beginner_friendly_false:
  assumes "map_of project ''beginner_friendly'' = Some (PBool False)"
    and "project \<in> set projects"
    and "filter_projects lower keywords level projects = Inr filtered"
  shows "(level = ''beginner'' \<longrightarrow> project \<notin> set filtered)
       \<and> (level = ''advanced'' \<and> matches_keyword lower keywords project = Inr True
            \<longrightarrow> project \<in> set filtered)"
proof (intro conjI impI)
  assume "level = ''beginner''"
  with not_friendly_beginner [OF assms(1)] have "\<not> matches_experience level project"
    by simp
  with filter_projects_member [OF assms(3), of project] show "project \<notin> set filtered"
    by simp
next
  assume a: "level = ''advanced'' \<and> matches_keyword lower keywords project = Inr True"
  with not_friendly_advanced [OF assms(1)] have "matches_experience level project"
    by simp
  with filter_projects_member [OF assms(3), of project] a assms(2)
  show "project \<in> set filtered"
    by simp
qed

lemma spark_flag: "map_of spark_project ''beginner_friendly'' = Some (PBool False)"
  by (simp add: spark_project_def)

lemma flink_flag: "matches_experience ''beginner'' flink_project"
  "\<not> matches_experience ''advanced'' flink_project"
  by (simp_all add: matches_experience_def dict_get_def flink_project_def)

lemma spark_matches: "matches_keyword ascii_lower [''S''] spark_project = Inr True"
  by code_simp

lemma flink_matches: "matches_keyword ascii_lower [''S''] flink_project = Inr True"
  by code_simp

lemma filter_catalog_beginner:
  "filter_projects ascii_lower [''S''] ''beginner'' [spark_project, flink_project] =
     Inr [flink_project]"
  by (simp add: spark_matches flink_matches flink_flag not_friendly_beginner [OF spark_flag])

lemma filter_catalog_advanced:
  "filter_projects ascii_lower [''S''] ''advanced'' [spark_project, flink_project] =
     Inr [spark_project]"
  by (simp add: spark_matches flink_matches flink_flag not_friendly_advanced [OF spark_flag])

theorem search_filter_beginner_friendly_false_witness:
  "filter_projects ascii_lower [''S''] ''beginner'' [spark_project, flink_project] =
     Inr [flink_project]
   \<and> spark_project \<notin> set [flink_project]
   \<and> filter_projects ascii_lower [''S''] ''advanced'' [spark_project, flink_project] =
     Inr [spark_project]
   \<and> spark_project \<in> set [spark_project]"
proof -
  have m: "spark_project \<in> set [spark_project, flink_project]" by simp
  from search_filter_beginner_friendly_false [OF spark_flag m filter_catalog_beginner]
    search_filter_beginner_friendly_false [OF spark_flag m filter_catalog_advanced]
    spark_matches filter_catalog_beginner filter_catalog_advanced
  show ?thesis by simp
qed

text \<open>
  C9. With an empty keyword list every project passes the keyword test, and the filtered
  catalog is the catalog filtered by the experience test alone.
\<close>

theorem search_filter_without_keywords:
  "filter_projects lower [] level projects = Inr (filter (matches_experience level) projects)"
  by (induction projects) (simp_all add: matches_keyword_def)

end
